theory Spec2Isabelle
  imports
    Main
    "HOL-Library.Char_ord"
    "HOL-Library.List_Lexorder"
    "HOL-Library.Product_Lexorder"
begin

section \<open>The session store of app.py\<close>

text \<open>
  app.py is a single Streamlit script. Its data lives in \<^verbatim>\<open>st.session_state\<close>, which
  \<^verbatim>\<open>_init_state\<close> fills with defaults, and every mutation is the body of an
  \<^verbatim>\<open>if st.button(...)\<close> block that reads the values of the input widgets above it.
  Each such block is embedded as a function from the session and the widget values to
  the new session. A subscript \<^verbatim>\<open>d[k]\<close> that reads a missing key raises
  \<^verbatim>\<open>KeyError\<close>; that is the only exception the modelled code can raise.

  A Python \<^verbatim>\<open>str\<close> is a \<^typ>\<open>string\<close> whose characters are the code points below 256;
  a \<^verbatim>\<open>dict\<close> is a map; a DataFrame is the list of its rows, oldest first
  (\<^verbatim>\<open>pd.concat(..., ignore_index=True)\<close> appends at the end and renumbers).
\<close>

datatype py_error = KeyError

datatype py_date = Date (year: nat) (month: nat) (day: nat)

datatype py_time = Time (hour: nat) (minute: nat) (second: nat)

record profile =
  dob :: "py_date option"
  gender :: "string option"

text \<open>
  A row of a vitals DataFrame. The frame is created with a column \<^verbatim>\<open>datetime\<close> that no
  appended row ever fills, so the column is left out.
\<close>

record vitals_row =
  v_date :: py_date
  v_time :: py_time
  systolic :: int
  diastolic :: int
  hr :: int
  glucose :: int

record passport_doc =
  immunizations :: "string list"
  allergies :: "string list"
  conditions :: "string list"

record patient =
  p_id :: string
  p_name :: string
  p_age :: int
  p_sex :: string
  p_allergies :: string
  p_comorbidities :: string

record roster_row =
  r_date :: string
  r_shift :: string
  r_doctor :: string

record session =
  active_profile :: string
  profiles :: "string \<rightharpoonup> profile"
  vitals :: "string \<rightharpoonup> vitals_row list"
  meds :: "string \<rightharpoonup> string list"
  records :: "string \<rightharpoonup> string list"
  passport :: "string \<rightharpoonup> passport_doc"
  roster :: "roster_row list"
  patients :: "patient list"

subsection \<open>Session bootstrapping\<close>

definition new_profile :: profile where
  "new_profile = \<lparr>dob = None, gender = None\<rparr>"

definition empty_passport :: passport_doc where
  "empty_passport = \<lparr>immunizations = [], allergies = [], conditions = []\<rparr>"

text \<open>The defaults that \<^verbatim>\<open>_init_state\<close> hands to \<^verbatim>\<open>setdefault\<close>.\<close>

definition default_state :: session where
  "default_state =
     \<lparr>active_profile = ''Me'',
      profiles = [''Me'' \<mapsto> new_profile],
      vitals = [''Me'' \<mapsto> []],
      meds = [''Me'' \<mapsto> []],
      records = [''Me'' \<mapsto> []],
      passport = [''Me'' \<mapsto> empty_passport],
      roster = [],
      patients = []\<rparr>"

text \<open>
  \<^verbatim>\<open>_init_state\<close> runs at the top of every script run. \<^verbatim>\<open>setdefault\<close> writes a key only
  when it is absent: on the first run of a session (\<open>None\<close>) every key gets its default,
  on a later run the keys are all present and the session is left as it is.
\<close>

definition init_state :: "session option \<Rightarrow> session" where
  "init_state ss = (case ss of None \<Rightarrow> default_state | Some s \<Rightarrow> s)"

subsection \<open>Comma-separated text\<close>

text \<open>The characters below 256 for which \<^verbatim>\<open>str.isspace\<close> holds.\<close>

definition whitespace :: "char list" where
  "whitespace =
     [CHR 0x09, CHR 0x0A, CHR 0x0B, CHR 0x0C, CHR 0x0D,
      CHR 0x1C, CHR 0x1D, CHR 0x1E, CHR 0x1F, CHR 0x20, CHR 0x85, CHR 0xA0]"

definition isspace :: "char \<Rightarrow> bool" where
  "isspace c = (c \<in> set whitespace)"

text \<open>\<^verbatim>\<open>s.strip()\<close>: leading and trailing whitespace removed.\<close>

definition strip :: "string \<Rightarrow> string" where
  "strip s = rev (dropWhile isspace (rev (dropWhile isspace s)))"

text \<open>
  \<^verbatim>\<open>s.split(sep)\<close> for a one-character separator: one fragment more than there are
  separators, so the empty string gives one empty fragment.
\<close>

fun split :: "char \<Rightarrow> string \<Rightarrow> string list" where
  "split sep [] = [[]]"
| "split sep (c # cs) =
     (if c = sep then [] # split sep cs
      else (case split sep cs of [] \<Rightarrow> [[c]] | w # ws \<Rightarrow> (c # w) # ws))"

text \<open>\<^verbatim>\<open>[x.strip() for x in text.split(",") if x.strip()]\<close>\<close>

definition split_list :: "string \<Rightarrow> string list" where
  "split_list text = map strip (filter (\<lambda>x. strip x \<noteq> []) (split (CHR '','') text))"

text \<open>
  \<^verbatim>\<open>sep.join(xs)\<close>. The page fills each comma-separated text field with the stored list
  joined by \<^verbatim>\<open>", "\<close>.
\<close>

fun join :: "string \<Rightarrow> string list \<Rightarrow> string" where
  "join sep [] = []"
| "join sep [x] = x"
| "join sep (x # y # ys) = x @ sep @ join sep (y # ys)"

subsection \<open>Family hub: profiles\<close>

text \<open>
  The select box offers the profile names and returns the chosen one; the script stores
  it when it differs from the current one.
\<close>

definition select_active :: "session \<Rightarrow> string \<Rightarrow> session" where
  "select_active s active =
     (if active \<noteq> active_profile s then s\<lparr>active_profile := active\<rparr> else s)"

definition add_profile :: "session \<Rightarrow> string \<Rightarrow> session" where
  "add_profile s new_name =
     (if new_name \<noteq> [] \<and> profiles s new_name = None then
        s\<lparr>profiles := (profiles s)(new_name \<mapsto> new_profile),
          vitals := (vitals s)(new_name \<mapsto> []),
          meds := (meds s)(new_name \<mapsto> []),
          records := (records s)(new_name \<mapsto> []),
          passport := (passport s)(new_name \<mapsto> empty_passport)\<rparr>
      else s)"

subsection \<open>Health passport\<close>

definition update_passport :: "session \<Rightarrow> string \<Rightarrow> string \<Rightarrow> string \<Rightarrow> session" where
  "update_passport s imms alls cond =
     s\<lparr>passport := (passport s)(active_profile s \<mapsto>
        \<lparr>immunizations = split_list imms,
         allergies = split_list alls,
         conditions = split_list cond\<rparr>)\<rparr>"

text \<open>
  The dictionary handed to \<^verbatim>\<open>json.dumps\<close>: the key \<^verbatim>\<open>profile\<close> followed by the keys
  of the active profile's passport, in their order. The text layout of the JSON is the
  library's and is not modelled.
\<close>

datatype jvalue = JStr string | JList "string list"

definition export_passport :: "session \<Rightarrow> py_error + (string \<times> jvalue) list" where
  "export_passport s =
     (case passport s (active_profile s) of
        None \<Rightarrow> Inl KeyError
      | Some p \<Rightarrow> Inr [(''profile'', JStr (active_profile s)),
                       (''immunizations'', JList (immunizations p)),
                       (''allergies'', JList (allergies p)),
                       (''conditions'', JList (conditions p))])"

subsection \<open>Medication companion\<close>

definition save_medications :: "session \<Rightarrow> string \<Rightarrow> session" where
  "save_medications s meds_str =
     s\<lparr>meds := (meds s)(active_profile s \<mapsto> split_list meds_str)\<rparr>"

subsection \<open>Vitals log\<close>

definition append_entry ::
  "session \<Rightarrow> py_date \<Rightarrow> py_time \<Rightarrow> int \<Rightarrow> int \<Rightarrow> int \<Rightarrow> int \<Rightarrow> py_error + session" where
  "append_entry s date time sys dia hr' glu =
     (case vitals s (active_profile s) of
        None \<Rightarrow> Inl KeyError
      | Some df \<Rightarrow>
          Inr (s\<lparr>vitals := (vitals s)(active_profile s \<mapsto>
                 df @ [\<lparr>v_date = date, v_time = time, systolic = sys,
                        diastolic = dia, hr = hr', glucose = glu\<rparr>])\<rparr>))"

text \<open>
  \<^verbatim>\<open>DataFrame.tail(n)\<close>: the last \<open>n\<close> rows; none for \<open>n = 0\<close>; for a negative \<open>n\<close>
  all rows but the first \<open>-n\<close>.
\<close>

definition tail :: "int \<Rightarrow> 'a list \<Rightarrow> 'a list" where
  "tail n df =
     (if n = 0 then []
      else if 0 < n then drop (length df - nat n) df
      else drop (nat (- n)) df)"

text \<open>
  What the page shows under the form: for an empty log the notice of \<^verbatim>\<open>st.info\<close>
  (\<open>Info\<close>, its fixed text left out), else the last six rows as a table.
\<close>

datatype vitals_view = Info | Table "vitals_row list"

definition show_vitals :: "session \<Rightarrow> py_error + vitals_view" where
  "show_vitals s =
     (case vitals s (active_profile s) of
        None \<Rightarrow> Inl KeyError
      | Some vitals_df \<Rightarrow>
          Inr (if vitals_df = [] then Info
               else Table (tail 6 vitals_df)))"

subsection \<open>Hospital: patient registry and roster\<close>

definition upsert_patient ::
  "session \<Rightarrow> string \<Rightarrow> string \<Rightarrow> int \<Rightarrow> string \<Rightarrow> string \<Rightarrow> string \<Rightarrow> session" where
  "upsert_patient s pid pname page psex pall pcom =
     s\<lparr>patients := filter (\<lambda>r. p_id r \<noteq> pid) (patients s) @
        [\<lparr>p_id = pid, p_name = pname, p_age = page, p_sex = psex,
          p_allergies = pall, p_comorbidities = pcom\<rparr>]\<rparr>"

text \<open>\<^verbatim>\<open>date.isoformat()\<close>: \<^verbatim>\<open>YYYY-MM-DD\<close>, zero padded.\<close>

definition digit :: "nat \<Rightarrow> char" where
  "digit n = ''0123456789'' ! (n mod 10)"

definition isoformat :: "py_date \<Rightarrow> string" where
  "isoformat d =
     [digit (year d div 1000), digit (year d div 100), digit (year d div 10), digit (year d)]
     @ ''-'' @ [digit (month d div 10), digit (month d)]
     @ ''-'' @ [digit (day d div 10), digit (day d)]"

definition add_roster_entry :: "session \<Rightarrow> py_date \<Rightarrow> string \<Rightarrow> string \<Rightarrow> session" where
  "add_roster_entry s rdate rshift rdoc =
     s\<lparr>roster := roster s @ [\<lparr>r_date = isoformat rdate, r_shift = rshift, r_doctor = rdoc\<rparr>]\<rparr>"

text \<open>
  \<^verbatim>\<open>roster.sort_values(by=["date","shift"])\<close>: ascending by the pair of the two string
  columns, strings compared code point by code point, rows with equal keys in their
  stored order.
\<close>

definition list_roster :: "session \<Rightarrow> roster_row list" where
  "list_roster s = sort_key (\<lambda>r. (r_date r, r_shift r)) (roster s)"

subsection \<open>Input widgets\<close>

text \<open>
  The handlers check nothing themselves: the values they receive are limited by the
  widgets that produce them. \<^verbatim>\<open>st.number_input(label, min_value, max_value, value)\<close>
  returns a number between \<open>min_value\<close> and \<open>max_value\<close>, both included, and
  \<^verbatim>\<open>st.selectbox(label, options)\<close> returns one of the options. The predicates say which
  values a widget can return.
\<close>

definition number_input :: "int \<Rightarrow> int \<Rightarrow> int \<Rightarrow> bool" where
  "number_input min_value max_value v \<longleftrightarrow> min_value \<le> v \<and> v \<le> max_value"

definition selectbox :: "string list \<Rightarrow> string \<Rightarrow> bool" where
  "selectbox options v \<longleftrightarrow> v \<in> set options"

text \<open>The four number inputs of the Log Vitals form.\<close>

definition log_vitals_inputs :: "int \<Rightarrow> int \<Rightarrow> int \<Rightarrow> int \<Rightarrow> bool" where
  "log_vitals_inputs sys dia hr' glu \<longleftrightarrow>
     number_input 80 220 sys \<and> number_input 40 130 dia \<and>
     number_input 40 200 hr' \<and> number_input 60 400 glu"

text \<open>The age and sex inputs of the patient registry form.\<close>

definition sex_options :: "string list" where
  "sex_options = [''M'', ''F'', ''Other'']"

definition patient_inputs :: "int \<Rightarrow> string \<Rightarrow> bool" where
  "patient_inputs page psex \<longleftrightarrow> number_input 0 120 page \<and> selectbox sex_options psex"

text \<open>The shift select box of the roster form, in the order the source lists the shifts.\<close>

definition shift_options :: "string list" where
  "shift_options = [''Morning'', ''Evening'', ''Night'']"

subsection \<open>Sequences of calls\<close>

text \<open>
  One call of a handler with the field values of a row, and a sequence of such calls
  applied from left to right.
\<close>

definition upsert_row :: "session \<Rightarrow> patient \<Rightarrow> session" where
  "upsert_row s r =
     upsert_patient s (p_id r) (p_name r) (p_age r) (p_sex r) (p_allergies r) (p_comorbidities r)"

definition upsert_all :: "session \<Rightarrow> patient list \<Rightarrow> session" where
  "upsert_all s calls = foldl upsert_row s calls"

definition append_row :: "session \<Rightarrow> vitals_row \<Rightarrow> py_error + session" where
  "append_row s e =
     append_entry s (v_date e) (v_time e) (systolic e) (diastolic e) (hr e) (glucose e)"

fun append_all :: "session \<Rightarrow> vitals_row list \<Rightarrow> py_error + session" where
  "append_all s [] = Inr s"
| "append_all s (e # es) =
     (case append_row s e of Inl err \<Rightarrow> Inl err | Inr s' \<Rightarrow> append_all s' es)"

subsection \<open>The coexistence invariant\<close>

text \<open>
  A profile name has a vitals log, a medication list, a record list and a passport
  exactly when it is a key of \<open>profiles\<close>, and the active profile is such a key.
\<close>

definition coexist :: "session \<Rightarrow> bool" where
  "coexist s \<longleftrightarrow>
     dom (vitals s) = dom (profiles s) \<and> dom (meds s) = dom (profiles s) \<and>
     dom (records s) = dom (profiles s) \<and> dom (passport s) = dom (profiles s)"

definition well_formed :: "session \<Rightarrow> bool" where
  "well_formed s \<longleftrightarrow> coexist s \<and> active_profile s \<in> dom (profiles s)"

section \<open>Patient registry\<close>

lemma patients_upsert:
  "patients (upsert_patient s pid pname page psex pall pcom) =
     filter (\<lambda>r. p_id r \<noteq> pid) (patients s) @
     [\<lparr>p_id = pid, p_name = pname, p_age = page, p_sex = psex,
       p_allergies = pall, p_comorbidities = pcom\<rparr>]"
  by (simp add: upsert_patient_def)

lemma distinct_upsert:
  assumes "distinct (map p_id (patients s))"
  shows "distinct (map p_id (patients (upsert_patient s pid pname page psex pall pcom)))"
  using assms by (auto simp: patients_upsert distinct_map_filter)

lemma distinct_upsert_all:
  "distinct (map p_id (patients s)) \<Longrightarrow> distinct (map p_id (patients (upsert_all s calls)))"
  unfolding upsert_all_def
proof (induction calls arbitrary: s)
  case Nil
  then show ?case by simp
next
  case (Cons r calls)
  have "distinct (map p_id (patients (upsert_row s r)))"
    unfolding upsert_row_def using Cons.prems by (rule distinct_upsert)
  then show ?case using Cons.IH by simp
qed

text \<open>
  C1. Whatever sequence of upserts is applied to a fresh session, no two rows of the
  registry share an ID, and one upsert keeps IDs distinct in any registry where they
  are. An upsert keeps the rows with other IDs in their order and puts the new row
  last; after two upserts with one ID the registry holds one row with that ID, it holds
  the values of the second call, and it is the last row.
\<close>

theorem upsert_patient_unique_ids:
  "distinct (map p_id (patients (upsert_all (init_state None) calls))) \<and>
   (distinct (map p_id (patients s)) \<longrightarrow>
      distinct (map p_id (patients (upsert_patient s pid n a x al co)))) \<and>
   patients (upsert_patient s pid n a x al co) =
     filter (\<lambda>r. p_id r \<noteq> pid) (patients s) @
     [\<lparr>p_id = pid, p_name = n, p_age = a, p_sex = x, p_allergies = al, p_comorbidities = co\<rparr>] \<and>
   filter (\<lambda>r. p_id r = pid)
     (patients (upsert_patient (upsert_patient s pid n a x al co) pid n' a' x' al' co')) =
     [\<lparr>p_id = pid, p_name = n', p_age = a', p_sex = x', p_allergies = al', p_comorbidities = co'\<rparr>] \<and>
   last (patients (upsert_patient (upsert_patient s pid n a x al co) pid n' a' x' al' co')) =
     \<lparr>p_id = pid, p_name = n', p_age = a', p_sex = x', p_allergies = al', p_comorbidities = co'\<rparr>"
proof -
  have init: "distinct (map p_id (patients (init_state None)))"
    by (simp add: init_state_def default_state_def)
  have one: "filter (\<lambda>r. p_id r = pid) (filter (\<lambda>r. p_id r \<noteq> pid) (patients s)) = []"
    by (simp add: filter_empty_conv)
  show ?thesis
    using distinct_upsert_all [OF init, of calls] distinct_upsert [of s pid n a x al co] one
    by (simp add: patients_upsert)
qed

theorem upsert_patient_unique_ids_witness:
  "distinct (map p_id (patients (init_state None))) \<and>
   patients (upsert_patient (upsert_patient (init_state None)
      ''A1'' ''Jane'' 34 ''F'' ''none'' ''none'') ''A1'' ''Jane'' 35 ''F'' ''penicillin'' ''asthma'') =
     [\<lparr>p_id = ''A1'', p_name = ''Jane'', p_age = 35, p_sex = ''F'',
       p_allergies = ''penicillin'', p_comorbidities = ''asthma''\<rparr>]"
  using upsert_patient_unique_ids [of "[]" "init_state None" "''A1''" "''Jane''" 34 "''F''"
      "''none''" "''none''" "''Jane''" 35 "''F''" "''penicillin''" "''asthma''"]
  by (simp add: init_state_def default_state_def upsert_patient_def)

section \<open>Comma-separated lists\<close>

text \<open>Filtering before or after trimming gives the same list.\<close>

lemma split_list_spec:
  "split_list text = filter (\<lambda>x. x \<noteq> []) (map strip (split (CHR '','') text))"
  by (simp add: split_list_def filter_map o_def)

lemma split_list_C: "split_list ''C'' = [''C'']"
  by (simp add: split_list_def strip_def isspace_def whitespace_def)

lemma split_list_meds: "split_list '' aspirin ,  , ibuprofen'' = [''aspirin'', ''ibuprofen'']"
  by (simp add: split_list_def strip_def isspace_def whitespace_def)

lemma split_not_Nil: "split sep t \<noteq> []"
  by (induction t) (auto split: list.split)

lemma split_no_sep: "sep \<notin> set w \<Longrightarrow> split sep w = [w]"
  by (induction w) auto

lemma split_append_sep: "sep \<notin> set w \<Longrightarrow> split sep (w @ sep # t) = w # split sep t"
  by (induction w) auto

lemma split_fragments: "f \<in> set (split sep t) \<Longrightarrow> sep \<notin> set f"
  by (induction t arbitrary: f) (auto split: if_splits list.splits)

lemma join_split: "join [sep] (split sep t) = t"
proof (induction t)
  case Nil
  show ?case by simp
next
  case (Cons c cs)
  show ?case
  proof (cases "split sep cs")
    case Nil
    then show ?thesis using split_not_Nil [of sep cs] by simp
  next
    case (Cons w ws)
    then show ?thesis using Cons.IH by (cases ws) auto
  qed
qed

lemma strip_space_Cons: "isspace c \<Longrightarrow> strip (c # f) = strip f"
  by (simp add: strip_def)

lemma strip_trimmed:
  assumes "w \<noteq> []" "\<not> isspace (hd w)" "\<not> isspace (last w)"
  shows "strip w = w"
proof -
  have "dropWhile isspace w = w" using assms by (cases w) auto
  moreover have "dropWhile isspace (rev w) = rev w"
    using assms by (cases "rev w") (auto simp: last_rev [symmetric] simp del: last_rev)
  ultimately show ?thesis by (simp add: strip_def)
qed

lemma strip_decompose:
  "\<exists>a b. s = a @ strip s @ b \<and> (\<forall>c\<in>set (a @ b). isspace c)"
proof -
  let ?d = "dropWhile isspace s"
  have 1: "s = takeWhile isspace s @ ?d" by simp
  have "rev (takeWhile isspace (rev ?d) @ dropWhile isspace (rev ?d)) = rev (rev ?d)"
    by (simp only: takeWhile_dropWhile_id)
  then have "?d = rev (dropWhile isspace (rev ?d)) @ rev (takeWhile isspace (rev ?d))"
    by (simp only: rev_append rev_rev_ident)
  then have "s = takeWhile isspace s @ strip s @ rev (takeWhile isspace (rev ?d))"
    using 1 by (simp add: strip_def)
  moreover have "\<forall>c\<in>set (takeWhile isspace s @ rev (takeWhile isspace (rev ?d))). isspace c"
    by (auto dest: set_takeWhileD)
  ultimately show ?thesis by blast
qed

lemma strip_subset: "set (strip s) \<subseteq> set s"
  using strip_decompose [of s] by (metis Un_upper1 Un_upper2 set_append subset_trans)

lemma strip_last: "strip s \<noteq> [] \<Longrightarrow> \<not> isspace (last (strip s))"
  by (simp add: strip_def last_rev hd_dropWhile)

lemma strip_hd: "strip s \<noteq> [] \<Longrightarrow> \<not> isspace (hd (strip s))"
proof -
  assume ne: "strip s \<noteq> []"
  let ?d = "dropWhile isspace s"
  have "rev (takeWhile isspace (rev ?d) @ dropWhile isspace (rev ?d)) = rev (rev ?d)"
    by (simp only: takeWhile_dropWhile_id)
  then have "?d = strip s @ rev (takeWhile isspace (rev ?d))"
    by (simp only: rev_append rev_rev_ident strip_def)
  then have "hd ?d = hd (strip s) \<and> ?d \<noteq> []" using ne by (metis hd_append2 append_is_Nil_conv)
  then show ?thesis using hd_dropWhile [of isspace s] by simp
qed

lemma split_list_fragments:
  assumes "x \<in> set (split_list t)"
  shows "x \<noteq> [] \<and> CHR '','' \<notin> set x \<and> \<not> isspace (hd x) \<and> \<not> isspace (last x)"
proof -
  from assms obtain f where f: "f \<in> set (split (CHR '','') t)" and x: "x = strip f" and ne: "strip f \<noteq> []"
    by (auto simp: split_list_def)
  have "CHR '','' \<notin> set f" using f by (rule split_fragments)
  then have "CHR '','' \<notin> set x" using strip_subset [of f] x by auto
  then show ?thesis using ne x strip_hd [of f] strip_last [of f] by simp
qed

lemma split_list_space_Cons: "split_list (CHR '' '' # t) = split_list t"
proof (cases "split (CHR '','') t")
  case Nil
  then show ?thesis using split_not_Nil [of "CHR '',''" t] by simp
next
  case (Cons w ws)
  have sp: "isspace CHR '' ''" by (simp add: isspace_def whitespace_def)
  show ?thesis using Cons by (simp add: split_list_def strip_space_Cons [OF sp])
qed

lemma split_list_join:
  "(\<forall>w\<in>set ws. w \<noteq> [] \<and> CHR '','' \<notin> set w \<and> \<not> isspace (hd w) \<and> \<not> isspace (last w)) \<Longrightarrow>
   split_list (join '', '' ws) = ws"
proof (induction "'', ''" ws rule: join.induct)
  case 1
  show ?case by (simp add: split_list_def strip_def)
next
  case (2 x)
  then show ?case by (simp add: split_list_def split_no_sep strip_trimmed)
next
  case (3 x y ys)
  have x: "x \<noteq> []" "CHR '','' \<notin> set x" "strip x = x" using 3(2) by (simp_all add: strip_trimmed)
  have "split_list (join '', '' (x # y # ys)) = split_list (x @ CHR '','' # CHR '' '' # join '', '' (y # ys))"
    by simp
  also have "\<dots> = x # split_list (CHR '' '' # join '', '' (y # ys))"
    using x by (simp add: split_list_def split_append_sep)
  also have "\<dots> = x # y # ys" using 3 by (simp only: split_list_space_Cons) simp
  finally show ?case .
qed

lemma split_list_AB: "split_list ''A, B'' = [''A'', ''B'']"
  by (simp add: split_list_def strip_def isspace_def whitespace_def)

lemma split_list_MMR: "split_list '' MMR ,, Tetanus , '' = [''MMR'', ''Tetanus'']"
  by (simp add: split_list_def strip_def isspace_def whitespace_def)

lemma split_list_blank: "split_list '' , '' = []"
  by (simp add: split_list_def strip_def isspace_def whitespace_def)

lemma passport_update_passport:
  "passport (update_passport s imms alls cond) =
     (passport s)(active_profile s \<mapsto>
        \<lparr>immunizations = split_list imms, allergies = split_list alls,
         conditions = split_list cond\<rparr>)"
  by (simp add: update_passport_def)

section \<open>Health passport and medication list\<close>

text \<open>
  C3. After \<open>update_passport\<close> the active profile's passport holds, for each of the three
  texts, its comma-separated fragments, trimmed, without the empty ones, whatever the
  passport held before; the passports of the other profiles are untouched. A second
  call with the same texts changes nothing. After a call with \<open>A, B\<close> and a call with
  \<open>C\<close> for a field, the field is the one-element list \<open>C\<close>.

  What splitting and trimming are: the fragments of a text hold no comma and, joined by
  commas, give the text back; a fragment is its trimmed form between two runs of
  whitespace, and a trimmed form that is not empty neither starts nor ends with
  whitespace. So every stored entry is non-empty, holds no comma, and neither starts nor
  ends with whitespace. The text \<open>A, B\<close> is stored as the two entries \<open>A\<close> and \<open>B\<close>, the text
  \<open> MMR ,, Tetanus , \<close> as \<open>MMR\<close> and \<open>Tetanus\<close>, and the text \<open> , \<close> as the empty list.
  Three lists of such entries, written into the three text areas the way the page fills
  them (joined by a comma and a space), are stored as they are.
\<close>

theorem update_passport_replaces:
  "passport (update_passport s imms alls cond) (active_profile s) =
     Some \<lparr>immunizations = filter (\<lambda>x. x \<noteq> []) (map strip (split (CHR '','') imms)),
           allergies = filter (\<lambda>x. x \<noteq> []) (map strip (split (CHR '','') alls)),
           conditions = filter (\<lambda>x. x \<noteq> []) (map strip (split (CHR '','') cond))\<rparr> \<and>
   (\<forall>p. p \<noteq> active_profile s \<longrightarrow>
      passport (update_passport s imms alls cond) p = passport s p) \<and>
   update_passport (update_passport s imms alls cond) imms alls cond =
     update_passport s imms alls cond \<and>
   passport (update_passport (update_passport s ''A, B'' ''A, B'' ''A, B'') ''C'' ''C'' ''C'')
       (active_profile s) =
     Some \<lparr>immunizations = [''C''], allergies = [''C''], conditions = [''C'']\<rparr> \<and>
   map_option immunizations
     (passport (update_passport (update_passport s ''A, B'' a1 c1) ''C'' a2 c2) (active_profile s)) =
     Some [''C''] \<and>
   map_option allergies
     (passport (update_passport (update_passport s i1 ''A, B'' c1) i2 ''C'' c2) (active_profile s)) =
     Some [''C''] \<and>
   map_option conditions
     (passport (update_passport (update_passport s i1 a1 ''A, B'') i2 a2 ''C'') (active_profile s)) =
     Some [''C''] \<and>
   passport (update_passport s ''A, B'' '' MMR ,, Tetanus , '' '' , '') (active_profile s) =
     Some \<lparr>immunizations = [''A'', ''B''], allergies = [''MMR'', ''Tetanus''],
           conditions = []\<rparr> \<and>
   join '','' (split (CHR '','') imms) = imms \<and>
   (\<forall>f\<in>set (split (CHR '','') imms). CHR '','' \<notin> set f) \<and>
   (\<exists>a b. x = a @ strip x @ b \<and> (\<forall>c\<in>set (a @ b). isspace c)) \<and>
   (strip x \<noteq> [] \<longrightarrow> \<not> isspace (hd (strip x)) \<and> \<not> isspace (last (strip x))) \<and>
   (\<forall>d. passport (update_passport s imms alls cond) (active_profile s) = Some d \<longrightarrow>
      (\<forall>e\<in>set (immunizations d @ allergies d @ conditions d).
         e \<noteq> [] \<and> CHR '','' \<notin> set e \<and> \<not> isspace (hd e) \<and> \<not> isspace (last e))) \<and>
   ((\<forall>w\<in>set (ims @ als @ cds).
       w \<noteq> [] \<and> CHR '','' \<notin> set w \<and> \<not> isspace (hd w) \<and> \<not> isspace (last w)) \<longrightarrow>
    passport (update_passport s (join '', '' ims) (join '', '' als) (join '', '' cds))
        (active_profile s) =
      Some \<lparr>immunizations = ims, allergies = als, conditions = cds\<rparr>)"
proof -
  have idem: "update_passport (update_passport s imms alls cond) imms alls cond =
      update_passport s imms alls cond"
    by (simp add: update_passport_def)
  have act: "\<And>t i a c. active_profile (update_passport t i a c) = active_profile t"
    by (simp add: update_passport_def)
  have stored: "passport (update_passport s imms alls cond) (active_profile s) =
     Some \<lparr>immunizations = filter (\<lambda>x. x \<noteq> []) (map strip (split (CHR '','') imms)),
           allergies = filter (\<lambda>x. x \<noteq> []) (map strip (split (CHR '','') alls)),
           conditions = filter (\<lambda>x. x \<noteq> []) (map strip (split (CHR '','') cond))\<rparr>"
    by (simp add: passport_update_passport split_list_spec [symmetric])
  have others: "\<forall>p. p \<noteq> active_profile s \<longrightarrow>
      passport (update_passport s imms alls cond) p = passport s p"
    by (simp add: passport_update_passport)
  have abc: "passport (update_passport (update_passport s ''A, B'' ''A, B'' ''A, B'') ''C'' ''C'' ''C'')
       (active_profile s) =
     Some \<lparr>immunizations = [''C''], allergies = [''C''], conditions = [''C'']\<rparr>"
    by (simp add: act passport_update_passport split_list_C)
  have abc_i: "map_option immunizations
     (passport (update_passport (update_passport s ''A, B'' a1 c1) ''C'' a2 c2) (active_profile s)) =
     Some [''C'']"
    by (simp add: act passport_update_passport split_list_C)
  have abc_a: "map_option allergies
     (passport (update_passport (update_passport s i1 ''A, B'' c1) i2 ''C'' c2) (active_profile s)) =
     Some [''C'']"
    by (simp add: act passport_update_passport split_list_C)
  have abc_c: "map_option conditions
     (passport (update_passport (update_passport s i1 a1 ''A, B'') i2 a2 ''C'') (active_profile s)) =
     Some [''C'']"
    by (simp add: act passport_update_passport split_list_C)
  have ex: "passport (update_passport s ''A, B'' '' MMR ,, Tetanus , '' '' , '') (active_profile s) =
     Some \<lparr>immunizations = [''A'', ''B''], allergies = [''MMR'', ''Tetanus''],
           conditions = []\<rparr>"
    by (simp only: passport_update_passport split_list_AB split_list_MMR split_list_blank
        fun_upd_same)
  have js: "join '','' (split (CHR '','') imms) = imms"
    by (rule join_split)
  have frag: "\<forall>f\<in>set (split (CHR '','') imms). CHR '','' \<notin> set f"
    by (simp add: split_fragments)
  have dec: "\<exists>a b. x = a @ strip x @ b \<and> (\<forall>c\<in>set (a @ b). isspace c)"
    by (rule strip_decompose)
  have ends: "strip x \<noteq> [] \<longrightarrow> \<not> isspace (hd (strip x)) \<and> \<not> isspace (last (strip x))"
    by (simp add: strip_hd strip_last)
  have entries: "\<forall>d. passport (update_passport s imms alls cond) (active_profile s) = Some d \<longrightarrow>
      (\<forall>e\<in>set (immunizations d @ allergies d @ conditions d).
         e \<noteq> [] \<and> CHR '','' \<notin> set e \<and> \<not> isspace (hd e) \<and> \<not> isspace (last e))"
  proof (intro allI impI ballI)
    fix d e
    assume d: "passport (update_passport s imms alls cond) (active_profile s) = Some d"
      and e: "e \<in> set (immunizations d @ allergies d @ conditions d)"
    from d have "d = \<lparr>immunizations = split_list imms, allergies = split_list alls,
        conditions = split_list cond\<rparr>"
      by (simp add: passport_update_passport)
    with e have "e \<in> set (split_list imms) \<or> e \<in> set (split_list alls) \<or>
        e \<in> set (split_list cond)"
      by auto
    then show "e \<noteq> [] \<and> CHR '','' \<notin> set e \<and> \<not> isspace (hd e) \<and> \<not> isspace (last e)"
      using split_list_fragments by blast
  qed
  have again: "(\<forall>w\<in>set (ims @ als @ cds).
       w \<noteq> [] \<and> CHR '','' \<notin> set w \<and> \<not> isspace (hd w) \<and> \<not> isspace (last w)) \<longrightarrow>
    passport (update_passport s (join '', '' ims) (join '', '' als) (join '', '' cds))
        (active_profile s) =
      Some \<lparr>immunizations = ims, allergies = als, conditions = cds\<rparr>"
  proof
    assume w: "\<forall>w\<in>set (ims @ als @ cds).
       w \<noteq> [] \<and> CHR '','' \<notin> set w \<and> \<not> isspace (hd w) \<and> \<not> isspace (last w)"
    have "split_list (join '', '' ims) = ims" using w by (intro split_list_join) simp
    moreover have "split_list (join '', '' als) = als" using w by (intro split_list_join) simp
    moreover have "split_list (join '', '' cds) = cds" using w by (intro split_list_join) simp
    ultimately show "passport (update_passport s (join '', '' ims) (join '', '' als) (join '', '' cds))
        (active_profile s) =
      Some \<lparr>immunizations = ims, allergies = als, conditions = cds\<rparr>"
      by (simp only: passport_update_passport fun_upd_same)
  qed
  show ?thesis
    by (intro conjI stored others idem abc abc_i abc_a abc_c ex js frag dec ends entries again)
qed

theorem update_passport_replaces_witness:
  "passport (update_passport (update_passport (init_state None) ''A, B'' ''x'' '''') ''C'' ''x'' '''') ''Me'' =
     Some \<lparr>immunizations = [''C''], allergies = [''x''], conditions = []\<rparr> \<and>
   passport (update_passport (add_profile (init_state None) ''Sam'') ''A, B'' ''x'' '''') ''Sam'' =
     Some \<lparr>immunizations = [], allergies = [], conditions = []\<rparr> \<and>
   passport (update_passport (add_profile (init_state None) ''Sam'') ''A, B'' ''x'' '''') ''Me'' =
     Some \<lparr>immunizations = [''A'', ''B''], allergies = [''x''], conditions = []\<rparr> \<and>
   passport (update_passport (init_state None) '' MMR ,, Tetanus , '' ''A, B'' '' , '') ''Me'' =
     Some \<lparr>immunizations = [''MMR'', ''Tetanus''], allergies = [''A'', ''B''],
           conditions = []\<rparr> \<and>
   split (CHR '','') '' MMR ,, Tetanus , '' = ['' MMR '', '''', '' Tetanus '', '' ''] \<and>
   strip '' Tetanus '' = ''Tetanus'' \<and>
   join '', '' [''MMR'', ''Tetanus''] = ''MMR, Tetanus'' \<and>
   passport (update_passport (init_state None) ''MMR, Tetanus'' ''Peanuts'' '''') ''Me'' =
     Some \<lparr>immunizations = [''MMR'', ''Tetanus''], allergies = [''Peanuts''],
           conditions = []\<rparr>"
proof -
  have twice: "passport (update_passport (update_passport (init_state None) ''A, B'' ''x'' '''')
        ''C'' ''x'' '''') ''Me'' =
      Some \<lparr>immunizations = [''C''], allergies = [''x''], conditions = []\<rparr>"
    using update_passport_replaces [of "update_passport (init_state None) ''A, B'' ''x'' ''''"
        "''C''" "''x''" "''''" "''''" "''''" "''''" "''''" "''''" "''''" "''x''"
        "[''C'']" "[''x'']" "[]"]
    by (simp add: init_state_def default_state_def update_passport_def
        split_list_def strip_def isspace_def whitespace_def)
  have other: "passport (update_passport (add_profile (init_state None) ''Sam'')
        ''A, B'' ''x'' '''') ''Sam'' =
      Some \<lparr>immunizations = [], allergies = [], conditions = []\<rparr> \<and>
    passport (update_passport (add_profile (init_state None) ''Sam'') ''A, B'' ''x'' '''') ''Me'' =
      Some \<lparr>immunizations = [''A'', ''B''], allergies = [''x''], conditions = []\<rparr>"
    using update_passport_replaces [of "add_profile (init_state None) ''Sam''"
        "''A, B''" "''x''" "''''" "''''" "''''" "''''" "''''" "''''" "''''" "'' x''"
        "[''A'', ''B'']" "[''x'']" "[]"]
    by (simp add: init_state_def default_state_def update_passport_def add_profile_def
        empty_passport_def split_list_def strip_def isspace_def whitespace_def)
  have texts: "passport (update_passport (init_state None) '' MMR ,, Tetanus , '' ''A, B''
        '' , '') ''Me'' =
      Some \<lparr>immunizations = [''MMR'', ''Tetanus''], allergies = [''A'', ''B''],
            conditions = []\<rparr> \<and>
    split (CHR '','') '' MMR ,, Tetanus , '' = ['' MMR '', '''', '' Tetanus '', '' ''] \<and>
    strip '' Tetanus '' = ''Tetanus'' \<and>
    join '', '' [''MMR'', ''Tetanus''] = ''MMR, Tetanus'' \<and>
    passport (update_passport (init_state None) ''MMR, Tetanus'' ''Peanuts'' '''') ''Me'' =
      Some \<lparr>immunizations = [''MMR'', ''Tetanus''], allergies = [''Peanuts''],
            conditions = []\<rparr>"
    using update_passport_replaces [of "init_state None" "'' MMR ,, Tetanus , ''" "''A, B''"
        "'' , ''" "''''" "''''" "''''" "''''" "''''" "''''" "'' Tetanus ''"
        "[''MMR'', ''Tetanus'']" "[''Peanuts'']" "[]"]
    by (simp add: init_state_def default_state_def update_passport_def
        split_list_def strip_def isspace_def whitespace_def)
  show ?thesis
    using twice other texts by (simp only: simp_thms)
qed

text \<open>
  C6. After \<open>save_medications\<close> the active profile's medication list is the list of the
  comma-separated fragments of the text, trimmed, without the empty ones: the list a
  passport field gets from the same text. What the list held before plays no part, and
  the lists of the other profiles are untouched. The text
  \<open> aspirin ,  , ibuprofen\<close> gives the two names \<open>aspirin\<close> and \<open>ibuprofen\<close>.
\<close>

theorem save_medications_replaces:
  "meds (save_medications s meds_str) (active_profile s) =
     Some (filter (\<lambda>x. x \<noteq> []) (map strip (split (CHR '','') meds_str))) \<and>
   meds (save_medications s meds_str) (active_profile s) =
     map_option immunizations (passport (update_passport s meds_str alls cond) (active_profile s)) \<and>
   (\<forall>p. p \<noteq> active_profile s \<longrightarrow> meds (save_medications s meds_str) p = meds s p) \<and>
   save_medications (save_medications s old_str) meds_str = save_medications s meds_str \<and>
   meds (save_medications s '' aspirin ,  , ibuprofen'') (active_profile s) =
     Some [''aspirin'', ''ibuprofen'']"
  by (simp add: save_medications_def passport_update_passport split_list_meds
      split_list_spec [symmetric])

theorem save_medications_replaces_witness:
  "meds (save_medications (save_medications (init_state None) ''paracetamol'')
      '' aspirin ,  , ibuprofen'') ''Me'' = Some [''aspirin'', ''ibuprofen''] \<and>
   meds (save_medications (add_profile (init_state None) ''Sam'') ''aspirin'') ''Sam'' = Some []"
  using save_medications_replaces [of "save_medications (init_state None) ''paracetamol''"
      "'' aspirin ,  , ibuprofen''"]
    save_medications_replaces [of "add_profile (init_state None) ''Sam''" "''aspirin''"]
  by (simp add: init_state_def default_state_def save_medications_def add_profile_def)

section \<open>Profiles\<close>

lemma well_formed_default: "well_formed default_state"
  by (simp add: well_formed_def coexist_def default_state_def)

lemma coexist_add_profile: "coexist s \<Longrightarrow> coexist (add_profile s new_name)"
  by (simp add: coexist_def add_profile_def)

lemma well_formed_add_profile: "well_formed s \<Longrightarrow> well_formed (add_profile s new_name)"
  by (simp add: well_formed_def coexist_def add_profile_def)

lemma well_formed_select_active:
  "well_formed s \<Longrightarrow> profiles s active \<noteq> None \<Longrightarrow> well_formed (select_active s active)"
  by (auto simp: well_formed_def coexist_def select_active_def)

lemma well_formed_update_passport:
  "well_formed s \<Longrightarrow> well_formed (update_passport s imms alls cond)"
  by (auto simp: well_formed_def coexist_def update_passport_def)

lemma well_formed_save_medications:
  "well_formed s \<Longrightarrow> well_formed (save_medications s meds_str)"
  by (auto simp: well_formed_def coexist_def save_medications_def)

lemma well_formed_upsert_patient:
  "well_formed s \<Longrightarrow> well_formed (upsert_patient s pid pname page psex pall pcom)"
  by (simp add: well_formed_def coexist_def upsert_patient_def)

lemma well_formed_add_roster_entry:
  "well_formed s \<Longrightarrow> well_formed (add_roster_entry s rdate rshift rdoc)"
  by (simp add: well_formed_def coexist_def add_roster_entry_def)

lemma well_formed_has_log:
  "well_formed s \<Longrightarrow> \<exists>df. vitals s (active_profile s) = Some df"
  by (auto simp: well_formed_def coexist_def)

lemma well_formed_has_passport:
  "well_formed s \<Longrightarrow> \<exists>p. passport s (active_profile s) = Some p"
  by (auto simp: well_formed_def coexist_def)

lemma well_formed_append_entry:
  assumes "well_formed s"
  shows "\<exists>s'. append_entry s date time sys dia h glu = Inr s' \<and> well_formed s'"
proof -
  from assms obtain df where df: "vitals s (active_profile s) = Some df"
    using well_formed_has_log by blast
  let ?s' = "s\<lparr>vitals := (vitals s)(active_profile s \<mapsto>
      df @ [\<lparr>v_date = date, v_time = time, systolic = sys, diastolic = dia,
             hr = h, glucose = glu\<rparr>])\<rparr>"
  have "append_entry s date time sys dia h glu = Inr ?s'"
    by (simp add: append_entry_def df)
  moreover have "well_formed ?s'"
    using assms by (auto simp: well_formed_def coexist_def)
  ultimately show ?thesis by blast
qed

text \<open>
  C5. \<open>add_profile\<close> returns the session as it is for the empty name and for a name that
  is a profile already, whatever that profile has collected. For any other name it adds
  that one name to the profiles, with an empty vitals log, medication list and record
  list and a passport of three empty lists, and changes nothing else. A second call
  with the same name changes nothing.
\<close>

theorem add_profile_once:
  "add_profile s [] = s \<and>
   (profiles s name \<noteq> None \<longrightarrow> add_profile s name = s) \<and>
   (name \<noteq> [] \<and> profiles s name = None \<longrightarrow>
      profiles (add_profile s name) = (profiles s)(name \<mapsto> \<lparr>dob = None, gender = None\<rparr>) \<and>
      dom (profiles (add_profile s name)) = insert name (dom (profiles s)) \<and>
      name \<notin> dom (profiles s) \<and>
      vitals (add_profile s name) = (vitals s)(name \<mapsto> []) \<and>
      meds (add_profile s name) = (meds s)(name \<mapsto> []) \<and>
      records (add_profile s name) = (records s)(name \<mapsto> []) \<and>
      passport (add_profile s name) =
        (passport s)(name \<mapsto> \<lparr>immunizations = [], allergies = [], conditions = []\<rparr>) \<and>
      active_profile (add_profile s name) = active_profile s \<and>
      roster (add_profile s name) = roster s \<and>
      patients (add_profile s name) = patients s) \<and>
   add_profile (add_profile s name) name = add_profile s name"
  by (auto simp: add_profile_def new_profile_def empty_passport_def)

theorem add_profile_once_witness:
  "profiles (init_state None) ''Sam'' = None \<and>
   vitals (add_profile (init_state None) ''Sam'') ''Sam'' = Some [] \<and>
   profiles (save_medications (select_active (add_profile (init_state None) ''Sam'') ''Sam'')
      ''aspirin'') ''Sam'' \<noteq> None \<and>
   meds (add_profile (save_medications (select_active (add_profile (init_state None) ''Sam'')
      ''Sam'') ''aspirin'') ''Sam'') ''Sam'' = Some [''aspirin'']"
  using add_profile_once [of "init_state None" "''Sam''"]
    add_profile_once [of "save_medications (select_active (add_profile (init_state None) ''Sam'')
      ''Sam'') ''aspirin''" "''Sam''"]
  by (simp add: init_state_def default_state_def save_medications_def select_active_def
      add_profile_def split_list_def strip_def isspace_def whitespace_def)

text \<open>
  C9. \<open>export_passport\<close> returns a value and no session. Where the active profile has a
  passport, the value is the document with the keys \<open>profile\<close>, \<open>immunizations\<close>,
  \<open>allergies\<close> and \<open>conditions\<close>, holding the active profile's name and its three lists;
  two sessions with the same active profile and the same passport for it give the same
  document. For \<open>Sam\<close>, added to a session that has no such profile and made active, the
  document holds the name \<open>Sam\<close> and three empty lists.
\<close>

theorem export_passport_document:
  "(passport s (active_profile s) = Some p \<longrightarrow>
      export_passport s =
        Inr [(''profile'', JStr (active_profile s)),
             (''immunizations'', JList (immunizations p)),
             (''allergies'', JList (allergies p)),
             (''conditions'', JList (conditions p))]) \<and>
   (active_profile s = active_profile t \<and>
    passport s (active_profile s) = passport t (active_profile t) \<longrightarrow>
      export_passport s = export_passport t) \<and>
   (profiles u ''Sam'' = None \<longrightarrow>
      export_passport (select_active (add_profile u ''Sam'') ''Sam'') =
        Inr [(''profile'', JStr ''Sam''), (''immunizations'', JList []),
             (''allergies'', JList []), (''conditions'', JList [])]) \<and>
   export_passport (select_active (add_profile (init_state None) ''Sam'') ''Sam'') =
     Inr [(''profile'', JStr ''Sam''), (''immunizations'', JList []),
          (''allergies'', JList []), (''conditions'', JList [])]"
proof -
  have doc: "passport s (active_profile s) = Some p \<longrightarrow>
      export_passport s =
        Inr [(''profile'', JStr (active_profile s)),
             (''immunizations'', JList (immunizations p)),
             (''allergies'', JList (allergies p)),
             (''conditions'', JList (conditions p))]"
    by (simp add: export_passport_def)
  have same: "active_profile s = active_profile t \<and>
      passport s (active_profile s) = passport t (active_profile t) \<longrightarrow>
      export_passport s = export_passport t"
    by (auto simp: export_passport_def split: option.split)
  have sam: "profiles u ''Sam'' = None \<longrightarrow>
      export_passport (select_active (add_profile u ''Sam'') ''Sam'') =
        Inr [(''profile'', JStr ''Sam''), (''immunizations'', JList []),
             (''allergies'', JList []), (''conditions'', JList [])]" for u
    by (simp add: export_passport_def select_active_def add_profile_def empty_passport_def)
  have fresh: "profiles (init_state None) ''Sam'' = None"
    by (simp add: init_state_def default_state_def)
  have sam0: "export_passport (select_active (add_profile (init_state None) ''Sam'') ''Sam'') =
      Inr [(''profile'', JStr ''Sam''), (''immunizations'', JList []),
           (''allergies'', JList []), (''conditions'', JList [])]"
    using sam [of "init_state None"] fresh by blast
  show ?thesis
    by (intro conjI doc same sam sam0)
qed

theorem export_passport_document_witness:
  "passport (update_passport (init_state None) ''flu, tetanus'' ''pollen'' '''') ''Me'' =
     Some \<lparr>immunizations = [''flu'', ''tetanus''], allergies = [''pollen''], conditions = []\<rparr> \<and>
   export_passport (update_passport (init_state None) ''flu, tetanus'' ''pollen'' '''') =
     Inr [(''profile'', JStr ''Me''), (''immunizations'', JList [''flu'', ''tetanus'']),
          (''allergies'', JList [''pollen'']), (''conditions'', JList [])] \<and>
   profiles (init_state None) ''Sam'' = None \<and>
   export_passport (select_active (add_profile (init_state None) ''Sam'') ''Sam'') =
     Inr [(''profile'', JStr ''Sam''), (''immunizations'', JList []),
          (''allergies'', JList []), (''conditions'', JList [])]"
  using export_passport_document [of "update_passport (init_state None) ''flu, tetanus'' ''pollen'' ''''"
      "\<lparr>immunizations = [''flu'', ''tetanus''], allergies = [''pollen''], conditions = []\<rparr>"
      "init_state None" "init_state None"]
  by (simp add: init_state_def default_state_def update_passport_def
      split_list_def strip_def isspace_def whitespace_def)

text \<open>
  C10. The session that \<open>init_state\<close> builds on the first run has \<open>Me\<close> as its active
  profile and as its only profile, with an empty vitals log, medication list and record
  list and a passport of three empty lists. It is well formed: the four collections have
  the keys of \<open>profiles\<close> and the active profile is one of them. In a well-formed
  session, and so in the first one, adding an entry, exporting the passport and showing
  the vitals raise no \<open>KeyError\<close>, and every handler gives a well-formed session again
  (the select box offering profile names only).
\<close>

theorem initial_session:
  "active_profile (init_state None) = ''Me'' \<and>
   dom (profiles (init_state None)) = {''Me''} \<and>
   vitals (init_state None) ''Me'' = Some [] \<and>
   meds (init_state None) ''Me'' = Some [] \<and>
   records (init_state None) ''Me'' = Some [] \<and>
   passport (init_state None) ''Me'' =
     Some \<lparr>immunizations = [], allergies = [], conditions = []\<rparr> \<and>
   coexist (init_state None) \<and>
   well_formed (init_state None) \<and>
   (\<exists>s'. append_entry (init_state None) date time sys dia h glu = Inr s' \<and> well_formed s') \<and>
   (\<exists>doc. export_passport (init_state None) = Inr doc) \<and>
   show_vitals (init_state None) = Inr Info \<and>
   (well_formed s \<longrightarrow>
      (\<exists>s'. append_entry s date time sys dia h glu = Inr s' \<and> well_formed s') \<and>
      (\<exists>doc. export_passport s = Inr doc) \<and>
      (\<exists>v. show_vitals s = Inr v) \<and>
      well_formed (add_profile s new_name) \<and>
      (profiles s active \<noteq> None \<longrightarrow> well_formed (select_active s active)) \<and>
      well_formed (update_passport s imms alls cond) \<and>
      well_formed (save_medications s meds_str) \<and>
      well_formed (upsert_patient s pid pname page psex pall pcom) \<and>
      well_formed (add_roster_entry s rdate rshift rdoc))"
proof -
  have wf0: "well_formed (init_state None)"
    using well_formed_default by (simp add: init_state_def)
  have facts: "active_profile (init_state None) = ''Me''"
    "dom (profiles (init_state None)) = {''Me''}"
    "vitals (init_state None) ''Me'' = Some []"
    "meds (init_state None) ''Me'' = Some []"
    "records (init_state None) ''Me'' = Some []"
    "passport (init_state None) ''Me'' =
       Some \<lparr>immunizations = [], allergies = [], conditions = []\<rparr>"
    by (simp_all add: init_state_def default_state_def empty_passport_def)
  have view0: "show_vitals (init_state None) = Inr Info"
    by (simp add: show_vitals_def facts)
  have exp: "\<exists>doc. export_passport t = Inr doc" if "well_formed t" for t
    using well_formed_has_passport [OF that] by (auto simp: export_passport_def)
  have view: "\<exists>v. show_vitals t = Inr v" if "well_formed t" for t
    using well_formed_has_log [OF that] by (auto simp: show_vitals_def)
  have gen: "well_formed s \<longrightarrow>
      (\<exists>s'. append_entry s date time sys dia h glu = Inr s' \<and> well_formed s') \<and>
      (\<exists>doc. export_passport s = Inr doc) \<and>
      (\<exists>v. show_vitals s = Inr v) \<and>
      well_formed (add_profile s new_name) \<and>
      (profiles s active \<noteq> None \<longrightarrow> well_formed (select_active s active)) \<and>
      well_formed (update_passport s imms alls cond) \<and>
      well_formed (save_medications s meds_str) \<and>
      well_formed (upsert_patient s pid pname page psex pall pcom) \<and>
      well_formed (add_roster_entry s rdate rshift rdoc)"
  proof
    assume wf: "well_formed s"
    have sel: "profiles s active \<noteq> None \<longrightarrow> well_formed (select_active s active)"
      using well_formed_select_active [OF wf] by blast
    show "(\<exists>s'. append_entry s date time sys dia h glu = Inr s' \<and> well_formed s') \<and>
      (\<exists>doc. export_passport s = Inr doc) \<and>
      (\<exists>v. show_vitals s = Inr v) \<and>
      well_formed (add_profile s new_name) \<and>
      (profiles s active \<noteq> None \<longrightarrow> well_formed (select_active s active)) \<and>
      well_formed (update_passport s imms alls cond) \<and>
      well_formed (save_medications s meds_str) \<and>
      well_formed (upsert_patient s pid pname page psex pall pcom) \<and>
      well_formed (add_roster_entry s rdate rshift rdoc)"
      by (intro conjI sel well_formed_append_entry [OF wf] exp [OF wf] view [OF wf]
          well_formed_add_profile [OF wf] well_formed_update_passport [OF wf]
          well_formed_save_medications [OF wf] well_formed_upsert_patient [OF wf]
          well_formed_add_roster_entry [OF wf])
  qed
  have c0: "coexist (init_state None)"
    using wf0 by (simp add: well_formed_def)
  show ?thesis
    by (intro conjI facts wf0 c0 view0 gen well_formed_append_entry [OF wf0] exp [OF wf0])
qed

theorem initial_session_witness:
  "well_formed (init_state None) \<and>
   profiles (init_state None) ''Me'' \<noteq> None \<and>
   well_formed (select_active (init_state None) ''Me'') \<and>
   well_formed (add_profile (init_state None) ''Sam'') \<and>
   (\<exists>s'. append_entry (init_state None) (Date 2024 1 1) (Time 8 0 0) 120 80 72 95 = Inr s' \<and>
      well_formed s')"
  using initial_session [of "Date 2024 1 1" "Time 8 0 0" 120 80 72 95 "init_state None"
      "''Sam''" "''Me''"]
  by (simp add: init_state_def default_state_def)

section \<open>Vitals log\<close>

lemma append_entry_Some:
  assumes "vitals s (active_profile s) = Some df"
  shows "append_entry s date time sys dia h glu =
     Inr (s\<lparr>vitals := (vitals s)(active_profile s \<mapsto>
        df @ [\<lparr>v_date = date, v_time = time, systolic = sys, diastolic = dia,
               hr = h, glucose = glu\<rparr>])\<rparr>)"
  using assms by (simp add: append_entry_def)

lemma append_entry_None:
  assumes "vitals s (active_profile s) = None"
  shows "append_entry s date time sys dia h glu = Inl KeyError"
  using assms by (simp add: append_entry_def)

lemma append_row_Some:
  assumes "vitals s (active_profile s) = Some df"
  shows "append_row s e = Inr (s\<lparr>vitals := (vitals s)(active_profile s \<mapsto> df @ [e])\<rparr>)"
proof -
  have "\<lparr>v_date = v_date e, v_time = v_time e, systolic = systolic e,
      diastolic = diastolic e, hr = hr e, glucose = glucose e\<rparr> = e"
    by (cases e) simp
  then show ?thesis
    unfolding append_row_def by (simp only: append_entry_Some [OF assms])
qed

lemma append_all_Some:
  "vitals s (active_profile s) = Some df \<Longrightarrow>
   append_all s es = Inr (s\<lparr>vitals := (vitals s)(active_profile s \<mapsto> df @ es)\<rparr>)"
proof (induction es arbitrary: s df)
  case Nil
  have "(vitals s)(active_profile s \<mapsto> df) = vitals s"
    using Nil by (simp add: map_upd_triv)
  then show ?case by simp
next
  case (Cons e es)
  let ?s' = "s\<lparr>vitals := (vitals s)(active_profile s \<mapsto> df @ [e])\<rparr>"
  have step: "append_row s e = Inr ?s'"
    using Cons.prems by (rule append_row_Some)
  have log: "vitals ?s' (active_profile ?s') = Some (df @ [e])"
    by simp
  have same: "?s'\<lparr>vitals := (vitals ?s')(active_profile ?s' \<mapsto> (df @ [e]) @ es)\<rparr> =
      s\<lparr>vitals := (vitals s)(active_profile s \<mapsto> df @ e # es)\<rparr>"
    by simp
  have "append_all s (e # es) = append_all ?s' es"
    by (simp add: step)
  also have "\<dots> = Inr (?s'\<lparr>vitals := (vitals ?s')(active_profile ?s' \<mapsto> (df @ [e]) @ es)\<rparr>)"
    by (rule Cons.IH [OF log])
  finally show ?case
    by (simp only: same)
qed

lemma tail_nat: "tail (int n) df = drop (length df - n) df"
  by (simp add: tail_def)

text \<open>
  C2, as the code has it. \<open>append_entry\<close> compares its four measurements with nothing:
  where the active profile has a log it appends a row with the values it was given,
  whatever they are, and where it has none it raises \<open>KeyError\<close>. The ranges belong to
  the number inputs of the form, which include both ends: they can return 80 and 220
  for the systolic value and cannot return 79.
\<close>

theorem append_entry_unchecked:
  "(vitals s (active_profile s) = Some df \<longrightarrow>
      append_entry s date time sys dia h glu =
        Inr (s\<lparr>vitals := (vitals s)(active_profile s \<mapsto>
           df @ [\<lparr>v_date = date, v_time = time, systolic = sys, diastolic = dia,
                  hr = h, glucose = glu\<rparr>])\<rparr>)) \<and>
   (vitals s (active_profile s) = None \<longrightarrow>
      append_entry s date time sys dia h glu = Inl KeyError) \<and>
   (log_vitals_inputs sys dia h glu \<longleftrightarrow>
      80 \<le> sys \<and> sys \<le> 220 \<and> 40 \<le> dia \<and> dia \<le> 130 \<and>
      40 \<le> h \<and> h \<le> 200 \<and> 60 \<le> glu \<and> glu \<le> 400) \<and>
   log_vitals_inputs 80 40 40 60 \<and>
   log_vitals_inputs 220 130 200 400 \<and>
   \<not> log_vitals_inputs 79 80 72 95"
proof -
  have a: "vitals s (active_profile s) = Some df \<longrightarrow>
      append_entry s date time sys dia h glu =
        Inr (s\<lparr>vitals := (vitals s)(active_profile s \<mapsto>
           df @ [\<lparr>v_date = date, v_time = time, systolic = sys, diastolic = dia,
                  hr = h, glucose = glu\<rparr>])\<rparr>)"
    using append_entry_Some by blast
  have b: "vitals s (active_profile s) = None \<longrightarrow>
      append_entry s date time sys dia h glu = Inl KeyError"
    using append_entry_None by blast
  have c: "log_vitals_inputs sys dia h glu \<longleftrightarrow>
      80 \<le> sys \<and> sys \<le> 220 \<and> 40 \<le> dia \<and> dia \<le> 130 \<and>
      40 \<le> h \<and> h \<le> 200 \<and> 60 \<le> glu \<and> glu \<le> 400"
    by (simp add: log_vitals_inputs_def number_input_def)
  have d: "log_vitals_inputs 80 40 40 60" "log_vitals_inputs 220 130 200 400"
    "\<not> log_vitals_inputs 79 80 72 95"
    by (simp_all add: log_vitals_inputs_def number_input_def)
  show ?thesis
    by (intro conjI a b c d)
qed

theorem append_entry_unchecked_witness:
  "vitals (init_state None) (active_profile (init_state None)) = Some [] \<and>
   append_entry (init_state None) (Date 2024 1 1) (Time 8 0 0) 220 80 72 95 =
     Inr ((init_state None)\<lparr>vitals := [''Me'' \<mapsto>
        [\<lparr>v_date = Date 2024 1 1, v_time = Time 8 0 0, systolic = 220, diastolic = 80,
          hr = 72, glucose = 95\<rparr>]]\<rparr>) \<and>
   vitals (select_active (init_state None) ''Sam'')
     (active_profile (select_active (init_state None) ''Sam'')) = None \<and>
   append_entry (select_active (init_state None) ''Sam'') (Date 2024 1 1) (Time 8 0 0)
     120 80 72 95 = Inl KeyError"
  using append_entry_unchecked [of "init_state None" "[]" "Date 2024 1 1" "Time 8 0 0" 220 80 72 95]
    append_entry_unchecked [of "select_active (init_state None) ''Sam''" "[]" "Date 2024 1 1"
      "Time 8 0 0" 120 80 72 95]
  by (simp add: init_state_def default_state_def select_active_def)

text \<open>
  C2 as stated fails: called on a fresh session with the systolic value 79, below the
  declared minimum, \<open>append_entry\<close> raises nothing and the log of \<open>Me\<close> gains the row.
\<close>

theorem append_entry_rejects_counterexample:
  "append_entry (init_state None) (Date 2024 1 1) (Time 8 0 0) 79 80 72 95 =
     Inr ((init_state None)\<lparr>vitals := [''Me'' \<mapsto>
        [\<lparr>v_date = Date 2024 1 1, v_time = Time 8 0 0, systolic = 79, diastolic = 80,
          hr = 72, glucose = 95\<rparr>]]\<rparr>) \<and>
   vitals (init_state None) ''Me'' = Some []"
  by (simp add: append_entry_def init_state_def default_state_def)

text \<open>
  C4. A sequence of entries appended to a profile's log is found at the end of the log,
  in the order of the calls, behind the rows the log held before, which are unchanged.
  \<open>tail n\<close> of a log is its last \<open>min n (length log)\<close> rows in their order: the whole log
  when it has at most \<open>n\<close> rows, and no rows, without an error, when it is empty. The
  page shows a notice for an empty log and \<open>tail 6\<close> otherwise. No handler changes or
  reorders rows that a log holds: all but \<open>append_entry\<close> and \<open>add_profile\<close> leave
  every log as it is, \<open>append_entry\<close> extends one log at its end, and \<open>add_profile\<close>
  creates an empty log for a new name only.
\<close>

theorem vitals_log_tail:
  "(vitals s (active_profile s) = Some df \<longrightarrow>
      append_all s es = Inr (s\<lparr>vitals := (vitals s)(active_profile s \<mapsto> df @ es)\<rparr>)) \<and>
   tail (int n) (log :: vitals_row list) = drop (length log - min n (length log)) log \<and>
   length (tail (int n) log) = min n (length log) \<and>
   take (length log - min n (length log)) log @ tail (int n) log = log \<and>
   (length log \<le> n \<longrightarrow> tail (int n) log = log) \<and>
   tail (int n) ([] :: vitals_row list) = [] \<and>
   (vitals s (active_profile s) = Some [] \<longrightarrow> show_vitals s = Inr Info) \<and>
   (vitals s (active_profile s) = Some df \<and> df \<noteq> [] \<longrightarrow>
      show_vitals s = Inr (Table (drop (length df - 6) df))) \<and>
   vitals (select_active s active) = vitals s \<and>
   vitals (update_passport s imms alls cond) = vitals s \<and>
   vitals (save_medications s meds_str) = vitals s \<and>
   vitals (upsert_patient s pid pname page psex pall pcom) = vitals s \<and>
   vitals (add_roster_entry s rdate rshift rdoc) = vitals s \<and>
   (coexist s \<and> vitals s p = Some old \<longrightarrow> vitals (add_profile s new_name) p = Some old) \<and>
   (append_entry s date time sys dia h glu = Inr s' \<and> vitals s p = Some old \<longrightarrow>
      (\<exists>new. vitals s' p = Some (old @ new)))"
proof -
  have a: "vitals s (active_profile s) = Some df \<longrightarrow>
      append_all s es = Inr (s\<lparr>vitals := (vitals s)(active_profile s \<mapsto> df @ es)\<rparr>)"
    using append_all_Some by blast
  have t1: "tail (int n) log = drop (length log - min n (length log)) log"
    by (cases "n \<le> length log") (simp_all add: tail_nat min_def)
  have t2: "length (tail (int n) log) = min n (length log)"
    by (simp add: tail_nat min_def)
  have t3: "take (length log - min n (length log)) log @ tail (int n) log = log"
    by (simp add: t1)
  have t4: "length log \<le> n \<longrightarrow> tail (int n) log = log"
    by (simp add: tail_nat)
  have t5: "tail (int n) ([] :: vitals_row list) = []"
    by (simp add: tail_nat)
  have v1: "vitals s (active_profile s) = Some [] \<longrightarrow> show_vitals s = Inr Info"
    by (simp add: show_vitals_def)
  have six: "tail 6 df = drop (length df - 6) df"
    using tail_nat [of 6 df] by simp
  have v2: "vitals s (active_profile s) = Some df \<and> df \<noteq> [] \<longrightarrow>
      show_vitals s = Inr (Table (drop (length df - 6) df))"
    by (simp add: show_vitals_def six)
  have o: "vitals (select_active s active) = vitals s"
    "vitals (update_passport s imms alls cond) = vitals s"
    "vitals (save_medications s meds_str) = vitals s"
    "vitals (upsert_patient s pid pname page psex pall pcom) = vitals s"
    "vitals (add_roster_entry s rdate rshift rdoc) = vitals s"
    by (simp_all add: select_active_def update_passport_def save_medications_def
        upsert_patient_def add_roster_entry_def)
  have ap: "coexist s \<and> vitals s p = Some old \<longrightarrow>
      vitals (add_profile s new_name) p = Some old"
  proof
    assume h: "coexist s \<and> vitals s p = Some old"
    then have "p \<in> dom (profiles s)"
      by (auto simp: coexist_def)
    then have "profiles s new_name = None \<longrightarrow> p \<noteq> new_name"
      by auto
    then show "vitals (add_profile s new_name) p = Some old"
      using h by (simp add: add_profile_def)
  qed
  have ae: "append_entry s date time sys dia h glu = Inr s' \<and> vitals s p = Some old \<longrightarrow>
      (\<exists>new. vitals s' p = Some (old @ new))"
  proof
    assume h: "append_entry s date time sys dia h glu = Inr s' \<and> vitals s p = Some old"
    show "\<exists>new. vitals s' p = Some (old @ new)"
    proof (cases "p = active_profile s")
      case True
      with h have log: "vitals s (active_profile s) = Some old"
        by simp
      from h have "append_entry s date time sys dia h glu = Inr s'"
        by simp
      then have "s' = s\<lparr>vitals := (vitals s)(active_profile s \<mapsto>
          old @ [\<lparr>v_date = date, v_time = time, systolic = sys, diastolic = dia,
                  hr = h, glucose = glu\<rparr>])\<rparr>"
        by (simp only: append_entry_Some [OF log] sum.inject)
      then have "vitals s' p = Some (old @ [\<lparr>v_date = date, v_time = time, systolic = sys,
          diastolic = dia, hr = h, glucose = glu\<rparr>])"
        using True by simp
      then show ?thesis by blast
    next
      case False
      with h have "vitals s' p = Some (old @ [])"
        by (auto simp: append_entry_def split: option.splits)
      then show ?thesis by blast
    qed
  qed
  show ?thesis
    by (intro conjI a t1 t2 t3 t4 t5 v1 v2 o ap ae)
qed

theorem vitals_log_tail_witness:
  "vitals (select_active (add_profile (init_state None) ''Sam'') ''Sam'')
     (active_profile (select_active (add_profile (init_state None) ''Sam'') ''Sam'')) = Some [] \<and>
   append_all (select_active (add_profile (init_state None) ''Sam'') ''Sam'')
     [\<lparr>v_date = Date 2024 1 1, v_time = Time 8 0 0, systolic = 120, diastolic = 80,
       hr = 72, glucose = 95\<rparr>] =
     Inr ((select_active (add_profile (init_state None) ''Sam'') ''Sam'')\<lparr>vitals :=
        [''Me'' \<mapsto> [], ''Sam'' \<mapsto>
          [\<lparr>v_date = Date 2024 1 1, v_time = Time 8 0 0, systolic = 120, diastolic = 80,
            hr = 72, glucose = 95\<rparr>]]\<rparr>) \<and>
   tail 1 [\<lparr>v_date = Date 2024 1 1, v_time = Time 8 0 0, systolic = 120, diastolic = 80,
       hr = 72, glucose = 95\<rparr>] =
     [\<lparr>v_date = Date 2024 1 1, v_time = Time 8 0 0, systolic = 120, diastolic = 80,
       hr = 72, glucose = 95\<rparr>] \<and>
   show_vitals (select_active (add_profile (init_state None) ''Sam'') ''Sam'') = Inr Info"
  using vitals_log_tail [of "select_active (add_profile (init_state None) ''Sam'') ''Sam''" "[]"
      "[\<lparr>v_date = Date 2024 1 1, v_time = Time 8 0 0, systolic = 120, diastolic = 80,
         hr = 72, glucose = 95\<rparr>]" 1
      "[\<lparr>v_date = Date 2024 1 1, v_time = Time 8 0 0, systolic = 120, diastolic = 80,
         hr = 72, glucose = 95\<rparr>]"]
  by (simp add: init_state_def default_state_def select_active_def add_profile_def)

section \<open>Patient registry: what is not checked\<close>

text \<open>
  C8, as the code has it. \<open>upsert_patient\<close> compares the age and the sex with nothing: for
  every age and every sex text it drops the rows with the given ID and puts a row with
  the given values last, and it changes nothing else in the session. The range 0 to 120
  and the three sex values belong to the inputs of the form.
\<close>

theorem upsert_patient_unchecked:
  "upsert_patient s pid pname page psex pall pcom =
     s\<lparr>patients := filter (\<lambda>r. p_id r \<noteq> pid) (patients s) @
        [\<lparr>p_id = pid, p_name = pname, p_age = page, p_sex = psex,
          p_allergies = pall, p_comorbidities = pcom\<rparr>]\<rparr> \<and>
   last (patients (upsert_patient s pid pname page psex pall pcom)) =
     \<lparr>p_id = pid, p_name = pname, p_age = page, p_sex = psex,
      p_allergies = pall, p_comorbidities = pcom\<rparr> \<and>
   (patient_inputs page psex \<longleftrightarrow>
      0 \<le> page \<and> page \<le> 120 \<and> (psex = ''M'' \<or> psex = ''F'' \<or> psex = ''Other'')) \<and>
   patient_inputs 0 ''M'' \<and>
   patient_inputs 120 ''Other'' \<and>
   \<not> patient_inputs 121 ''M'' \<and>
   \<not> patient_inputs (- 1) ''F'' \<and>
   \<not> patient_inputs 40 ''X''"
proof -
  have a: "upsert_patient s pid pname page psex pall pcom =
     s\<lparr>patients := filter (\<lambda>r. p_id r \<noteq> pid) (patients s) @
        [\<lparr>p_id = pid, p_name = pname, p_age = page, p_sex = psex,
          p_allergies = pall, p_comorbidities = pcom\<rparr>]\<rparr>"
    by (simp add: upsert_patient_def)
  have b: "last (patients (upsert_patient s pid pname page psex pall pcom)) =
     \<lparr>p_id = pid, p_name = pname, p_age = page, p_sex = psex,
      p_allergies = pall, p_comorbidities = pcom\<rparr>"
    by (simp add: patients_upsert)
  have c: "patient_inputs page psex \<longleftrightarrow>
      0 \<le> page \<and> page \<le> 120 \<and> (psex = ''M'' \<or> psex = ''F'' \<or> psex = ''Other'')"
    by (simp add: patient_inputs_def number_input_def selectbox_def sex_options_def)
  have d: "patient_inputs 0 ''M''" "patient_inputs 120 ''Other''"
    "\<not> patient_inputs 121 ''M''" "\<not> patient_inputs (- 1) ''F''" "\<not> patient_inputs 40 ''X''"
    by (simp_all add: patient_inputs_def number_input_def selectbox_def sex_options_def)
  show ?thesis
    by (intro conjI a b c d)
qed

theorem upsert_patient_unchecked_witness:
  "patients (upsert_patient (init_state None) ''A1'' ''Jane'' 34 ''F'' ''none'' ''none'') =
     [\<lparr>p_id = ''A1'', p_name = ''Jane'', p_age = 34, p_sex = ''F'',
       p_allergies = ''none'', p_comorbidities = ''none''\<rparr>] \<and>
   patient_inputs 34 ''F''"
  using upsert_patient_unchecked [of "init_state None" "''A1''" "''Jane''" 34 "''F''"
      "''none''" "''none''"]
  by (simp add: init_state_def default_state_def)

text \<open>
  C8 as stated fails: called on a fresh session with the age 121 and the sex \<open>X\<close>,
  \<open>upsert_patient\<close> raises nothing and the registry, empty before, holds the row.
\<close>

theorem upsert_patient_rejects_counterexample:
  "patients (upsert_patient (init_state None) ''P1'' ''Jane'' 121 ''X'' ''none'' ''none'') =
     [\<lparr>p_id = ''P1'', p_name = ''Jane'', p_age = 121, p_sex = ''X'',
       p_allergies = ''none'', p_comorbidities = ''none''\<rparr>] \<and>
   patients (init_state None) = [] \<and>
   \<not> patient_inputs 121 ''X''"
  by (simp add: upsert_patient_def init_state_def default_state_def patient_inputs_def
      number_input_def)

section \<open>Roster\<close>

lemma shift_labels_order:
  "(''Evening'' :: string) < ''Morning''" "(''Morning'' :: string) < ''Night''"
  by (simp_all add: less_char_def)

lemma roster_add_roster_entry:
  "roster (add_roster_entry s rdate rshift rdoc) =
     roster s @ [\<lparr>r_date = isoformat rdate, r_shift = rshift, r_doctor = rdoc\<rparr>]"
  by (simp add: add_roster_entry_def)

text \<open>
  C7. The roster listing holds the rows of the roster, ascending by the pair of date
  text and shift text, rows with the same pair in their stored order. Texts are compared
  character by character, so on one date \<open>Evening\<close> comes before \<open>Morning\<close> and
  \<open>Morning\<close> before \<open>Night\<close>: three entries added for one date as Morning, Evening,
  Night are listed as Evening, Morning, Night, which is not the order in which the
  select box lists the shifts.
\<close>

theorem list_roster_order:
  "sorted (map (\<lambda>r. (r_date r, r_shift r)) (list_roster s)) \<and>
   set (list_roster s) = set (roster s) \<and>
   length (list_roster s) = length (roster s) \<and>
   filter (\<lambda>r. (r_date r, r_shift r) = k) (list_roster s) =
     filter (\<lambda>r. (r_date r, r_shift r) = k) (roster s) \<and>
   ((d :: string) < d' \<longrightarrow> (d, x :: string) < (d', y)) \<and>
   (d, ''Evening'') < (d, ''Morning'') \<and>
   (d, ''Morning'') < (d, ''Night'') \<and>
   (roster s = [] \<longrightarrow>
      list_roster (add_roster_entry (add_roster_entry (add_roster_entry s
          rdate ''Morning'' a) rdate ''Evening'' b) rdate ''Night'' c) =
        [\<lparr>r_date = isoformat rdate, r_shift = ''Evening'', r_doctor = b\<rparr>,
         \<lparr>r_date = isoformat rdate, r_shift = ''Morning'', r_doctor = a\<rparr>,
         \<lparr>r_date = isoformat rdate, r_shift = ''Night'', r_doctor = c\<rparr>]) \<and>
   shift_options = [''Morning'', ''Evening'', ''Night''] \<and>
   sort shift_options = [''Evening'', ''Morning'', ''Night'']"
proof -
  have a: "sorted (map (\<lambda>r. (r_date r, r_shift r)) (list_roster s))"
    by (simp add: list_roster_def)
  have b: "set (list_roster s) = set (roster s)" "length (list_roster s) = length (roster s)"
    by (simp_all add: list_roster_def)
  have c: "filter (\<lambda>r. (r_date r, r_shift r) = k) (list_roster s) =
     filter (\<lambda>r. (r_date r, r_shift r) = k) (roster s)"
    unfolding list_roster_def by (rule sort_key_stable)
  have e: "d < d' \<longrightarrow> (d, x) < (d', y)"
    by (simp add: less_prod_def)
  have f: "(d, ''Evening'') < (d, ''Morning'')" "(d, ''Morning'') < (d, ''Night'')"
    using shift_labels_order by (simp_all add: less_prod_def)
  have g: "roster s = [] \<longrightarrow>
      list_roster (add_roster_entry (add_roster_entry (add_roster_entry s
          rdate ''Morning'' a) rdate ''Evening'' b) rdate ''Night'' c) =
        [\<lparr>r_date = isoformat rdate, r_shift = ''Evening'', r_doctor = b\<rparr>,
         \<lparr>r_date = isoformat rdate, r_shift = ''Morning'', r_doctor = a\<rparr>,
         \<lparr>r_date = isoformat rdate, r_shift = ''Night'', r_doctor = c\<rparr>]"
    by (simp add: list_roster_def roster_add_roster_entry less_eq_prod_def less_char_def
        less_eq_char_def)
  have h: "shift_options = [''Morning'', ''Evening'', ''Night'']"
    "sort shift_options = [''Evening'', ''Morning'', ''Night'']"
    by (simp_all add: shift_options_def less_char_def less_eq_char_def)
  show ?thesis
    by (intro conjI a b c e f g h)
qed

theorem list_roster_order_witness:
  "roster (init_state None) = [] \<and>
   map r_shift (list_roster (add_roster_entry (add_roster_entry (add_roster_entry
     (init_state None) (Date 2024 1 5) ''Morning'' ''Ann'') (Date 2024 1 5) ''Evening'' ''Bob'')
     (Date 2024 1 5) ''Night'' ''Cy'')) = [''Evening'', ''Morning'', ''Night''] \<and>
   map r_date (list_roster (add_roster_entry (add_roster_entry (add_roster_entry
     (init_state None) (Date 2024 1 5) ''Morning'' ''Ann'') (Date 2024 1 5) ''Evening'' ''Bob'')
     (Date 2024 1 5) ''Night'' ''Cy'')) = [''2024-01-05'', ''2024-01-05'', ''2024-01-05''] \<and>
   (''2024-01-05'' :: string) < ''2024-01-06'' \<and>
   (''2024-01-05'', ''Night'') < (''2024-01-06'', ''Evening'')"
  using list_roster_order [of "init_state None" "(''2024-01-05'', ''Night'')" "''2024-01-05''"
      "''2024-01-06''" "''Night''" "''Evening''" "Date 2024 1 5" "''Ann''" "''Bob''" "''Cy''"]
  by (simp add: init_state_def default_state_def isoformat_def digit_def less_char_def)

end
